theory Spec2Isabelle
  imports Main "HOL-Library.AList"
begin

section \<open>Data model\<close>

text \<open>
  The program is two functions of \<^verbatim>\<open>src/index.ts\<close>: the cookie propagator
  \<^verbatim>\<open>applyCookiesOnNextResponse\<close> and the middleware composer \<^verbatim>\<open>getMiddleware\<close>.
  Both work on objects of the host framework. What the program reads and writes of a
  request or a response is its \<^verbatim>\<open>Headers\<close> object (the cookie jars are views on it),
  so objects live in a store of header lists and a request or response is the reference
  of its \<^verbatim>\<open>Headers\<close> object. A header list keeps the entries in order, with names in
  the normalised (lower-case) form that \<^verbatim>\<open>Headers\<close> gives them; only
  \<^verbatim>\<open>set-cookie\<close> occurs more than once.
\<close>

type_synonym headers = "(string \<times> string) list"
type_synonym ref = nat
type_synonym heap = "headers list"

record TokenPair =
  accessToken :: string
  refreshToken :: string

text \<open>A thrown value (\<^verbatim>\<open>unknown\<close> in the source); a rejected promise carries one too.\<close>

datatype error = Error string

text \<open>
  What a callback typed \<^verbatim>\<open>NextResponse | void\<close> hands back at run time: nothing,
  \<^verbatim>\<open>null\<close>, or a response object.
\<close>

datatype jsval = Undefined | Null | Response ref

fun truthy :: "jsval \<Rightarrow> bool" where
  "truthy Undefined = False"
| "truthy Null = False"
| "truthy (Response r) = True"

fun nullish :: "jsval \<Rightarrow> bool" where
  "nullish Undefined = True"
| "nullish Null = True"
| "nullish (Response r) = False"

text \<open>
  A callback is code of the caller: it may read and write the store, and it returns or
  throws. An awaited promise that rejects is a throw at the \<^verbatim>\<open>await\<close>. A promise
  that never settles is outside the model: every callback here comes back.
\<close>

type_synonym 'a callback = "heap \<Rightarrow> (error + 'a) \<times> heap"

type_synonym 'ev NextMiddleware = "ref \<Rightarrow> ref \<Rightarrow> 'ev \<Rightarrow> jsval callback"

record GetMiddlewareOptions =
  shouldRefresh :: "ref \<Rightarrow> bool callback"
  fetchTokenPair :: "ref \<Rightarrow> TokenPair callback"
  onSuccess :: "ref \<Rightarrow> TokenPair \<Rightarrow> unit callback"
  onError :: "(ref \<Rightarrow> ref \<Rightarrow> error \<Rightarrow> jsval callback) option"

text \<open>
  The functions of \<^verbatim>\<open>next/server\<close> and of its cookie library that the program calls
  are not part of the repository. Their string formats are parameters of the model:
  the parser of one \<^verbatim>\<open>Set-Cookie\<close> line (name and value, or nothing for a line it
  rejects), the parser of a \<^verbatim>\<open>Cookie\<close> header, the serialiser of one request cookie,
  and the header list of the response that \<^verbatim>\<open>NextResponse.next(init)\<close> builds, given
  the contents of \<^verbatim>\<open>init.request.headers\<close> when present.
\<close>

record framework =
  parseSetCookie :: "string \<Rightarrow> (string \<times> string) option"
  parseCookie :: "string \<Rightarrow> (string \<times> string) list"
  stringifyCookie :: "string \<times> string \<Rightarrow> string"
  next_headers :: "headers option \<Rightarrow> headers"

section \<open>Framework objects\<close>

subsection \<open>Headers\<close>

definition Headers_new :: "headers \<Rightarrow> heap \<Rightarrow> ref \<times> heap" where
  \<comment> \<open>\<^verbatim>\<open>new Headers(init)\<close>: a new object holding a copy of the entries\<close>
  "Headers_new init h = (length h, h @ [init])"

text \<open>
  The order of a header list is the order of insertion. \<^verbatim>\<open>Headers\<close> does not expose
  it (iteration goes by name), and the loops below write one entry per name, so the
  entries they leave do not depend on the order in which a list is walked.
\<close>

definition Headers_get :: "headers \<Rightarrow> string \<Rightarrow> string option" where
  "Headers_get hs name = map_of hs name"

fun Headers_set :: "string \<Rightarrow> string \<Rightarrow> headers \<Rightarrow> headers" where
  \<comment> \<open>the first entry of that name takes the value and the others go; else a new entry\<close>
  "Headers_set name v [] = [(name, v)]"
| "Headers_set name v ((k, v') # hs) =
     (if k = name then (name, v) # filter (\<lambda>(k', _). k' \<noteq> name) hs
      else (k, v') # Headers_set name v hs)"

definition getSetCookie :: "headers \<Rightarrow> string list" where
  "getSetCookie hs = map snd (filter (\<lambda>(k, _). k = ''set-cookie'') hs)"

fun join :: "string \<Rightarrow> string list \<Rightarrow> string" where
  "join sep [] = []"
| "join sep [x] = x"
| "join sep (x # y # ys) = x @ sep @ join sep (y # ys)"

definition startsWith :: "string \<Rightarrow> string \<Rightarrow> bool" where
  "startsWith s p = (take (length p) s = p)"

subsection \<open>Cookie jars\<close>

text \<open>
  A jar is a JavaScript \<^verbatim>\<open>Map\<close> from cookie name to cookie, in insertion order:
  \<^verbatim>\<open>map.set\<close> replaces the value of a present key in place and appends a new key,
  which is \<^const>\<open>AList.update\<close>. \<^verbatim>\<open>RequestCookies.set\<close> keeps only the name and
  the value of the cookie it is given.
\<close>

type_synonym jar = "(string \<times> string) list"

definition ResponseCookies_new :: "framework \<Rightarrow> headers \<Rightarrow> jar" where
  "ResponseCookies_new fw responseHeaders =
     fold (\<lambda>cookieString parsed.
             case parseSetCookie fw cookieString of
               None \<Rightarrow> parsed
             | Some (name, v) \<Rightarrow> AList.update name v parsed)
          (getSetCookie responseHeaders) []"

definition getAll :: "jar \<Rightarrow> (string \<times> string) list" where
  "getAll parsed = parsed"

definition RequestCookies_new :: "framework \<Rightarrow> headers \<Rightarrow> jar" where
  "RequestCookies_new fw requestHeaders =
     (case Headers_get requestHeaders ''cookie'' of
        None \<Rightarrow> []
      | Some header \<Rightarrow>
          if header = [] then []
          else fold (\<lambda>(name, v) parsed. AList.update name v parsed) (parseCookie fw header) [])"

definition RequestCookies_set ::
  "framework \<Rightarrow> ref \<Rightarrow> string \<times> string \<Rightarrow> jar \<times> heap \<Rightarrow> jar \<times> heap" where
  \<comment> \<open>the jar over the \<^verbatim>\<open>Headers\<close> object at \<open>hdrs\<close>: update the map, rewrite the header\<close>
  "RequestCookies_set fw hdrs cookie = (\<lambda>(parsed, h).
     let parsed' = AList.update (fst cookie) (snd cookie) parsed
     in (parsed',
         h[hdrs := Headers_set ''cookie'' (join ''; '' (map (stringifyCookie fw) parsed')) (h ! hdrs)]))"

subsection \<open>NextResponse.next\<close>

definition NextResponse_next :: "framework \<Rightarrow> ref option \<Rightarrow> heap \<Rightarrow> ref \<times> heap" where
  "NextResponse_next fw request_headers h =
     Headers_new (next_headers fw (map_option (\<lambda>r. h ! r) request_headers)) h"

section \<open>The cookie propagator\<close>

definition routing_header :: "string \<Rightarrow> bool" where
  "routing_header key =
     (key = ''x-middleware-override-headers'' \<or> startsWith key ''x-middleware-request-'')"

definition applyCookiesOnNextResponse :: "framework \<Rightarrow> ref \<Rightarrow> ref \<Rightarrow> heap \<Rightarrow> heap" where
  "applyCookiesOnNextResponse fw req res h0 =
     (let outgoingCookies = ResponseCookies_new fw (h0 ! res);
          (incomingHeaders, h1) = Headers_new (h0 ! req) h0;
          incomingCookies = RequestCookies_new fw (h1 ! incomingHeaders);
          (incomingCookies', h2) =
             fold (RequestCookies_set fw incomingHeaders) (getAll outgoingCookies)
                  (incomingCookies, h1);
          (nextResponseHeaders, h3) = NextResponse_next fw (Some incomingHeaders) h2
      in fold (\<lambda>(key, v) h.
                 if routing_header key then h[res := Headers_set key v (h ! res)] else h)
              (h3 ! nextResponseHeaders) h3)"

section \<open>The middleware composer\<close>

text \<open>
  The composer's calls are recorded in the order it makes them; callbacks see the store
  only, so the record is the composer's own.
\<close>

datatype call =
    CallShouldRefresh ref
  | CallFetchTokenPair ref
  | CallOnSuccess ref TokenPair
  | CallOnError ref ref error
  | CallApplyCookies ref ref
  | CallMiddlewareFn ref ref

record world =
  heap_of :: heap
  trace :: "call list"

definition invoke :: "call \<Rightarrow> 'a callback \<Rightarrow> world \<Rightarrow> (error + 'a) \<times> world" where
  "invoke c f w =
     (case f (heap_of w) of (r, h') \<Rightarrow> (r, \<lparr>heap_of = h', trace = trace w @ [c]\<rparr>))"

text \<open>How a block of statements ends: it falls through, returns a value, or throws.\<close>

datatype flow = Continue | Returned jsval | Thrown error

definition try_block ::
  "GetMiddlewareOptions \<Rightarrow> ref \<Rightarrow> ref \<Rightarrow> world \<Rightarrow> (error + unit) \<times> world" where
  \<comment> \<open>lines 66-67: the body of \<^verbatim>\<open>try\<close>\<close>
  "try_block opts req res w =
     (case invoke (CallFetchTokenPair req) (fetchTokenPair opts req) w of
        (Inl e, w') \<Rightarrow> (Inl e, w')
      | (Inr tokenPair, w') \<Rightarrow>
          invoke (CallOnSuccess res tokenPair) (onSuccess opts res tokenPair) w')"

definition catch_block ::
  "GetMiddlewareOptions \<Rightarrow> ref \<Rightarrow> ref \<Rightarrow> error \<Rightarrow> world \<Rightarrow> flow \<times> world" where
  \<comment> \<open>lines 69-70: the body of \<^verbatim>\<open>catch (error)\<close>\<close>
  "catch_block opts req res err w =
     (case onError opts of
        None \<Rightarrow> (Continue, w)
      | Some f \<Rightarrow>
          (case invoke (CallOnError req res err) (f req res err) w of
             (Inl e, w') \<Rightarrow> (Thrown e, w')
           | (Inr next, w') \<Rightarrow> (if truthy next then Returned next else Continue, w')))"

definition refresh :: "GetMiddlewareOptions \<Rightarrow> ref \<Rightarrow> ref \<Rightarrow> world \<Rightarrow> flow \<times> world" where
  \<comment> \<open>lines 64-72\<close>
  "refresh opts req res w =
     (case invoke (CallShouldRefresh req) (shouldRefresh opts req) w of
        (Inl e, w') \<Rightarrow> (Thrown e, w')
      | (Inr b, w') \<Rightarrow>
          if b then
            (case try_block opts req res w' of
               (Inl err, w'') \<Rightarrow> catch_block opts req res err w''
             | (Inr _, w'') \<Rightarrow> (Continue, w''))
          else (Continue, w'))"

definition propagate :: "framework \<Rightarrow> ref \<Rightarrow> ref \<Rightarrow> world \<Rightarrow> world" where
  \<comment> \<open>line 74\<close>
  "propagate fw req res w =
     \<lparr>heap_of = applyCookiesOnNextResponse fw req res (heap_of w),
      trace = trace w @ [CallApplyCookies req res]\<rparr>"

definition forward ::
  "'ev NextMiddleware option \<Rightarrow> ref \<Rightarrow> ref \<Rightarrow> 'ev \<Rightarrow> world \<Rightarrow> (error + jsval) \<times> world" where
  \<comment> \<open>line 76: \<^verbatim>\<open>middlewareFn?.(req, res, event) ?? res\<close>\<close>
  "forward middlewareFn req res event w =
     (case middlewareFn of
        None \<Rightarrow> (Inr (Response res), w)
      | Some f \<Rightarrow>
          (case invoke (CallMiddlewareFn req res) (f req res event) w of
             (Inl e, w') \<Rightarrow> (Inl e, w')
           | (Inr v, w') \<Rightarrow> (Inr (if nullish v then Response res else v), w')))"

definition getMiddleware ::
  "framework \<Rightarrow> GetMiddlewareOptions \<Rightarrow> 'ev NextMiddleware option \<Rightarrow> ref \<Rightarrow> 'ev \<Rightarrow> heap
     \<Rightarrow> (error + jsval) \<times> world" where
  "getMiddleware fw opts middlewareFn req event h0 =
     (case NextResponse_next fw None h0 of
        (res, h1) \<Rightarrow>
          (case refresh opts req res \<lparr>heap_of = h1, trace = []\<rparr> of
             (Thrown e, w) \<Rightarrow> (Inl e, w)
           | (Returned next, w) \<Rightarrow> (Inr next, w)
           | (Continue, w) \<Rightarrow> forward middlewareFn req res event (propagate fw req res w)))"

section \<open>Specification vocabulary\<close>

text \<open>What the propagator's two loops compute, on header lists and jars alone.\<close>

definition merge_routing :: "headers \<Rightarrow> headers \<Rightarrow> headers" where
  "merge_routing src dst =
     fold (\<lambda>(key, v) hs. if routing_header key then Headers_set key v hs else hs) src dst"

definition store_all :: "(string \<times> string) list \<Rightarrow> jar \<Rightarrow> jar" where
  "store_all cs parsed = fold (\<lambda>c. AList.update (fst c) (snd c)) cs parsed"

definition derived_copy :: "framework \<Rightarrow> ref \<Rightarrow> ref \<Rightarrow> heap \<Rightarrow> headers" where
  "derived_copy fw req res h =
     (let cs = getAll (ResponseCookies_new fw (h ! res))
      in if cs = [] then h ! req
         else Headers_set ''cookie''
                (join ''; '' (map (stringifyCookie fw) (store_all cs (RequestCookies_new fw (h ! req)))))
                (h ! req))"

text \<open>
  The object at \<open>r\<close> is still there and unchanged; a callback keeps it when it leaves
  it so from every store that holds it.
\<close>

definition frame :: "ref \<Rightarrow> heap \<Rightarrow> heap \<Rightarrow> bool" where
  "frame r h h' = (r < length h' \<and> h' ! r = h ! r)"

definition keeps :: "ref \<Rightarrow> 'a callback \<Rightarrow> bool" where
  "keeps r f = (\<forall>h. r < length h \<longrightarrow> r < length (snd (f h)) \<and> snd (f h) ! r = h ! r)"

fun is_onSuccess :: "call \<Rightarrow> bool" where
  "is_onSuccess (CallOnSuccess r tp) = True"
| "is_onSuccess _ = False"

section \<open>A concrete framework and sample callbacks\<close>

text \<open>
  \<^verbatim>\<open>NextResponse.next\<close> as \<^verbatim>\<open>next/server\<close> implements it: the response carries
  \<^verbatim>\<open>x-middleware-next: 1\<close>; given request headers, it also carries one
  \<^verbatim>\<open>x-middleware-request-<name>\<close> header per request header and
  \<^verbatim>\<open>x-middleware-override-headers\<close>, the names joined by commas. The cookie syntax
  of the instance is the plain \<^verbatim>\<open>name=value\<close> form, attributes after \<^verbatim>\<open>;\<close>.
\<close>

definition nextjs_next_headers :: "headers option \<Rightarrow> headers" where
  "nextjs_next_headers init =
     (let headers = Headers_set ''x-middleware-next'' ''1'' []
      in case init of
           None \<Rightarrow> headers
         | Some request_headers \<Rightarrow>
             Headers_set ''x-middleware-override-headers'' (join '','' (map fst request_headers))
               (fold (\<lambda>(key, v). Headers_set (''x-middleware-request-'' @ key) v)
                     request_headers headers))"

definition name_value :: "string \<Rightarrow> string \<times> string" where
  "name_value s =
     (takeWhile (\<lambda>c. c \<noteq> CHR ''='') s, drop 1 (dropWhile (\<lambda>c. c \<noteq> CHR ''='') s))"

fun fields :: "string \<Rightarrow> string \<Rightarrow> string list" where
  "fields acc [] = [rev acc]"
| "fields acc (c # cs) = (if c = CHR '';'' then rev acc # fields [] cs else fields (c # acc) cs)"

definition nextjs :: framework where
  "nextjs =
     \<lparr>parseSetCookie = (\<lambda>s. let nv = takeWhile (\<lambda>c. c \<noteq> CHR '';'') s
                            in if CHR ''='' \<in> set nv then Some (name_value nv) else None),
      parseCookie = (\<lambda>s. map (\<lambda>f. name_value (dropWhile (\<lambda>c. c = CHR '' '') f)) (fields [] s)),
      stringifyCookie = (\<lambda>(name, v). name @ ''='' @ v),
      next_headers = nextjs_next_headers\<rparr>"

definition returns :: "'a \<Rightarrow> 'a callback" where
  "returns x h = (Inr x, h)"

definition throws :: "error \<Rightarrow> 'a callback" where
  "throws e h = (Inl e, h)"

text \<open>A store with one request; the same after the composer has made its response.\<close>

definition demo_heap :: heap where
  "demo_heap = [[(''cookie'', ''theme=dark''), (''host'', ''example.com'')]]"

definition fresh_heap :: heap where
  "fresh_heap = demo_heap @ [[(''x-middleware-next'', ''1'')]]"

definition cookie_heap :: heap where
  "cookie_heap = demo_heap @
     [[(''x-middleware-next'', ''1''), (''set-cookie'', ''a=1; Path=/''),
       (''set-cookie'', ''b=2; Path=/'')]]"

text \<open>The store after the \<^verbatim>\<open>onSuccess\<close> of the README has written both token cookies.\<close>

definition token_heap :: heap where
  "token_heap = demo_heap @
     [[(''x-middleware-next'', ''1''),
       (''set-cookie'', ''access-token=AT2; Path=/; Max-Age=604800''),
       (''set-cookie'', ''refresh-token=RT2; Path=/; Max-Age=604800'')]]"

definition demo_tokens :: TokenPair where
  "demo_tokens = \<lparr>accessToken = ''AT2'', refreshToken = ''RT2''\<rparr>"

text \<open>The \<^verbatim>\<open>onSuccess\<close> of the README: both tokens become cookies of the response.\<close>

definition set_token_cookies :: "ref \<Rightarrow> TokenPair \<Rightarrow> unit callback" where
  "set_token_cookies res tokenPair h =
     (Inr (), h[res := h ! res @
        [(''set-cookie'', ''access-token='' @ accessToken tokenPair @ ''; Path=/; Max-Age=604800''),
         (''set-cookie'', ''refresh-token='' @ refreshToken tokenPair @ ''; Path=/; Max-Age=604800'')]])"

definition demo_opts :: "bool \<Rightarrow> GetMiddlewareOptions" where
  "demo_opts b =
     \<lparr>shouldRefresh = (\<lambda>req. returns b),
      fetchTokenPair = (\<lambda>req. returns demo_tokens),
      onSuccess = set_token_cookies,
      onError = None\<rparr>"

definition login_redirect :: "ref \<Rightarrow> ref \<Rightarrow> error \<Rightarrow> jsval callback" where
  \<comment> \<open>an \<^verbatim>\<open>onError\<close> that answers with a new redirect response\<close>
  "login_redirect req res err h = (Inr (Response (length h)), h @ [[(''location'', ''/login'')]])"

definition throwing_opts :: GetMiddlewareOptions where
  "throwing_opts = (demo_opts True)\<lparr>onSuccess := (\<lambda>res tokenPair. throws (Error ''boom''))\<rparr>"

definition guarded_opts :: GetMiddlewareOptions where
  "guarded_opts = throwing_opts\<lparr>onError := Some login_redirect\<rparr>"

definition offline_opts :: GetMiddlewareOptions where
  "offline_opts = (demo_opts True)\<lparr>fetchTokenPair := (\<lambda>req. throws (Error ''network''))\<rparr>"

definition redirecting_opts :: GetMiddlewareOptions where
  "redirecting_opts = offline_opts\<lparr>onError := Some login_redirect\<rparr>"

definition full_opts :: GetMiddlewareOptions where
  "full_opts = (demo_opts True)\<lparr>onError := Some login_redirect\<rparr>"

definition silent_handler :: "unit NextMiddleware" where
  \<comment> \<open>a next-stage handler without a \<^verbatim>\<open>return\<close>\<close>
  "silent_handler req res event = returns Undefined"

definition passing_handler :: "unit NextMiddleware" where
  \<comment> \<open>the next-stage handler of the README: \<^verbatim>\<open>return res\<close>\<close>
  "passing_handler req res event = returns (Response res)"

lemmas composer_defs = getMiddleware_def refresh_def try_block_def catch_block_def
  forward_def propagate_def invoke_def

lemmas model_defs = composer_defs applyCookiesOnNextResponse_def NextResponse_next_def
  Headers_new_def ResponseCookies_new_def RequestCookies_new_def RequestCookies_set_def
  getAll_def getSetCookie_def Headers_get_def routing_header_def startsWith_def Let_def

lemmas demo_defs = nextjs_def nextjs_next_headers_def name_value_def demo_heap_def
  demo_tokens_def set_token_cookies_def demo_opts_def returns_def throws_def fresh_heap_def
  cookie_heap_def throwing_opts_def offline_opts_def login_redirect_def silent_handler_def
  passing_handler_def guarded_opts_def redirecting_opts_def full_opts_def

section \<open>Facts about headers, jars and the store\<close>

lemma Headers_set_twice: "Headers_set k v (Headers_set k u hs) = Headers_set k v hs"
  by (induction hs) auto

lemma Headers_get_set: "Headers_get (Headers_set k v hs) k = Some v"
  by (induction hs) (auto simp add: Headers_get_def)

lemma filter_Headers_set:
  assumes "\<not> P k"
  shows "filter (\<lambda>(a, _). P a) (Headers_set k v hs) = filter (\<lambda>(a, _). P a) hs"
  using assms
proof (induction hs)
  case Nil
  then show ?case by simp
next
  case (Cons p hs)
  obtain a b where p: "p = (a, b)" by (cases p)
  have "filter (\<lambda>(a, _). P a) (filter (\<lambda>(k', _). k' \<noteq> k) hs) = filter (\<lambda>(a, _). P a) hs"
    using Cons.prems by (auto intro!: filter_cong)
  with Cons p show ?case by simp
qed

lemma filter_merge_routing:
  "filter (\<lambda>(a, _). \<not> routing_header a) (merge_routing src dst)
     = filter (\<lambda>(a, _). \<not> routing_header a) dst"
  unfolding merge_routing_def
proof (induction src arbitrary: dst)
  case Nil
  then show ?case by simp
next
  case (Cons p src)
  obtain a b where p: "p = (a, b)" by (cases p)
  show ?case
    using Cons.IH filter_Headers_set [of "\<lambda>a. \<not> routing_header a" a b dst]
    by (simp add: p)
qed

lemma fold_set_cookies:
  assumes "a < length h"
  shows "fold (RequestCookies_set fw a) cs (j, h) =
           (store_all cs j,
            if cs = [] then h
            else h[a := Headers_set ''cookie''
                          (join ''; '' (map (stringifyCookie fw) (store_all cs j))) (h ! a)])"
  using assms
proof (induction cs arbitrary: j h)
  case Nil
  then show ?case by (simp add: store_all_def)
next
  case (Cons c cs)
  then show ?case
    by (simp add: store_all_def RequestCookies_set_def Let_def Headers_set_twice)
qed

lemma fold_merge_heap:
  "fold (\<lambda>(key, v) h. if routing_header key then h[res := Headers_set key v (h ! res)] else h)
        src h
     = h[res := merge_routing src (h ! res)]"
proof (cases "res < length h")
  case False
  have "fold (\<lambda>(key, v) h. if routing_header key then h[res := Headers_set key v (h ! res)] else h)
          src h = h"
    using False by (induction src) (auto split: prod.splits simp add: list_update_beyond)
  with False show ?thesis by (simp add: list_update_beyond)
next
  case True
  then show ?thesis
    unfolding merge_routing_def
  proof (induction src arbitrary: h)
    case Nil
    then show ?case by simp
  next
    case (Cons p src)
    obtain a b where p: "p = (a, b)" by (cases p)
    show ?case using Cons.prems by (simp add: p Cons.IH)
  qed
qed

lemma applyCookies_eq:
  "applyCookiesOnNextResponse fw req res h =
     (let copy = derived_copy fw req res h;
          nh = next_headers fw (Some copy);
          h3 = h @ [copy, nh]
      in h3[res := merge_routing nh (h3 ! res)])"
  by (simp add: applyCookiesOnNextResponse_def Headers_new_def NextResponse_next_def
      fold_set_cookies fold_merge_heap derived_copy_def Let_def nth_append)

lemma applyCookies_valid:
  assumes "res < length h"
  shows "applyCookiesOnNextResponse fw req res h =
           h[res := merge_routing (next_headers fw (Some (derived_copy fw req res h))) (h ! res)]
             @ [derived_copy fw req res h, next_headers fw (Some (derived_copy fw req res h))]"
  using assms by (simp add: applyCookies_eq Let_def nth_append list_update_append)

lemma applyCookies_req:
  assumes "req < length h" and "res \<noteq> req"
  shows "applyCookiesOnNextResponse fw req res h ! req = h ! req"
    and "req < length (applyCookiesOnNextResponse fw req res h)"
  using assms by (simp_all add: applyCookies_eq Let_def nth_append)

lemma map_of_store_all_other:
  "n \<notin> fst ` set cs \<Longrightarrow> map_of (store_all cs j) n = map_of j n"
  unfolding store_all_def
  by (induction cs arbitrary: j) (auto simp add: update_conv')

lemma store_all_member:
  assumes "distinct (map fst cs)" and "c \<in> set cs"
  shows "map_of (store_all cs j) (fst c) = Some (snd c)"
  using assms
proof (induction cs arbitrary: j)
  case Nil
  then show ?case by simp
next
  case (Cons d cs)
  show ?case
  proof (cases "c = d")
    case True
    have "fst d \<notin> fst ` set cs" using Cons.prems(1) by (simp add: image_iff) 
    then have "map_of (store_all cs (AList.update (fst d) (snd d) j)) (fst d)
                 = map_of (AList.update (fst d) (snd d) j) (fst d)"
      by (rule map_of_store_all_other)
    then show ?thesis using True by (simp add: store_all_def update_conv')
  next
    case False
    then have "c \<in> set cs" using Cons.prems(2) by simp
    moreover have "distinct (map fst cs)" using Cons.prems(1) by simp
    ultimately have "map_of (store_all cs (AList.update (fst d) (snd d) j)) (fst c) = Some (snd c)"
      by (rule Cons.IH[rotated])
    then show ?thesis by (simp add: store_all_def)
  qed
qed

lemma distinct_fold_update:
  "distinct (map fst j) \<Longrightarrow>
   distinct (map fst (fold (\<lambda>s parsed. case f s of None \<Rightarrow> parsed
                                       | Some (name, v) \<Rightarrow> AList.update name v parsed) xs j))"
  by (induction xs arbitrary: j) (auto simp add: distinct_update split: option.splits)

lemma distinct_ResponseCookies: "distinct (map fst (getAll (ResponseCookies_new fw hs)))"
  unfolding getAll_def ResponseCookies_new_def
  by (rule distinct_fold_update) simp

section \<open>Callbacks that keep an object\<close>

lemma frame_trans: "frame r h h' \<Longrightarrow> frame r h' h'' \<Longrightarrow> frame r h h''"
  by (simp add: frame_def)

lemma frame_refl: "r < length h \<Longrightarrow> frame r h h"
  by (simp add: frame_def)

lemma invoke_frame:
  assumes "keeps r f" and "r < length (heap_of w)" and "invoke c f w = (x, w')"
  shows "frame r (heap_of w) (heap_of w')"
proof -
  obtain y h' where fh: "f (heap_of w) = (y, h')" by (cases "f (heap_of w)")
  with assms(3) have "heap_of w' = h'" by (auto simp add: invoke_def)
  moreover from assms(1,2) fh have "r < length h' \<and> h' ! r = heap_of w ! r"
    by (auto simp add: keeps_def)
  ultimately show ?thesis by (simp add: frame_def)
qed

lemma try_block_frame:
  assumes "keeps r (fetchTokenPair opts req)"
      and "\<forall>tp. keeps r (onSuccess opts res tp)"
      and "r < length (heap_of w)"
      and "try_block opts req res w = (x, w')"
  shows "frame r (heap_of w) (heap_of w')"
proof -
  obtain y w1 where f: "invoke (CallFetchTokenPair req) (fetchTokenPair opts req) w = (y, w1)"
    by (cases "invoke (CallFetchTokenPair req) (fetchTokenPair opts req) w")
  have f1: "frame r (heap_of w) (heap_of w1)"
    using invoke_frame [OF assms(1) assms(3) f] .
  show ?thesis
  proof (cases y)
    case (Inl e)
    with f assms(4) have "w' = w1" by (simp add: try_block_def)
    with f1 show ?thesis by simp
  next
    case (Inr tp)
    with f assms(4) have s: "invoke (CallOnSuccess res tp) (onSuccess opts res tp) w1 = (x, w')"
      by (simp add: try_block_def)
    have "r < length (heap_of w1)" using f1 by (simp add: frame_def)
    with assms(2) s have "frame r (heap_of w1) (heap_of w')"
      by (blast intro: invoke_frame)
    with f1 show ?thesis by (rule frame_trans)
  qed
qed

lemma catch_block_frame:
  assumes "\<forall>f e. onError opts = Some f \<longrightarrow> keeps r (f req res e)"
      and "r < length (heap_of w)"
      and "catch_block opts req res err w = (x, w')"
  shows "frame r (heap_of w) (heap_of w')"
proof (cases "onError opts")
  case None
  with assms(3) have "w' = w" by (simp add: catch_block_def)
  with assms(2) show ?thesis by (simp add: frame_refl)
next
  case (Some f)
  obtain y w1 where i: "invoke (CallOnError req res err) (f req res err) w = (y, w1)"
    by (cases "invoke (CallOnError req res err) (f req res err) w")
  with Some assms(3) have "w' = w1" by (auto simp add: catch_block_def split: sum.splits)
  moreover have "keeps r (f req res err)" using assms(1) Some by simp
  ultimately show ?thesis using invoke_frame [OF _ assms(2) i] by simp
qed

lemma refresh_frame:
  assumes "keeps r (shouldRefresh opts req)"
      and "keeps r (fetchTokenPair opts req)"
      and "\<forall>tp. keeps r (onSuccess opts res tp)"
      and "\<forall>f e. onError opts = Some f \<longrightarrow> keeps r (f req res e)"
      and "r < length (heap_of w)"
      and "refresh opts req res w = (x, w')"
  shows "frame r (heap_of w) (heap_of w')"
proof -
  obtain y w1 where s: "invoke (CallShouldRefresh req) (shouldRefresh opts req) w = (y, w1)"
    by (cases "invoke (CallShouldRefresh req) (shouldRefresh opts req) w")
  have f1: "frame r (heap_of w) (heap_of w1)"
    using invoke_frame [OF assms(1) assms(5) s] .
  then have v1: "r < length (heap_of w1)" by (simp add: frame_def)
  obtain z w2 where t: "try_block opts req res w1 = (z, w2)"
    by (cases "try_block opts req res w1")
  have f2: "frame r (heap_of w1) (heap_of w2)"
    using try_block_frame [OF assms(2) assms(3) v1 t] .
  then have v2: "r < length (heap_of w2)" by (simp add: frame_def)
  show ?thesis
  proof (cases y)
    case (Inl e)
    with s assms(6) have "w' = w1" by (simp add: refresh_def)
    with f1 show ?thesis by simp
  next
    case (Inr b)
    show ?thesis
    proof (cases b)
      case False
      with Inr s assms(6) have "w' = w1" by (simp add: refresh_def)
      with f1 show ?thesis by simp
    next
      case True
      show ?thesis
      proof (cases z)
        case (Inl err)
        with True Inr s t assms(6) have "catch_block opts req res err w2 = (x, w')"
          by (simp add: refresh_def)
        then have "frame r (heap_of w2) (heap_of w')"
          using catch_block_frame [OF assms(4) v2] by simp
        with f1 f2 show ?thesis by (blast intro: frame_trans)
      next
        case (Inr u)
        with True \<open>y = Inr b\<close> s t assms(6) have "w' = w2" by (simp add: refresh_def)
        with f1 f2 show ?thesis by (blast intro: frame_trans)
      qed
    qed
  qed
qed

lemma forward_frame:
  assumes "\<forall>f. middlewareFn = Some f \<longrightarrow> keeps r (f req res event)"
      and "r < length (heap_of w)"
      and "forward middlewareFn req res event w = (x, w')"
  shows "frame r (heap_of w) (heap_of w')"
proof (cases middlewareFn)
  case None
  with assms(3) have "w' = w" by (simp add: forward_def)
  with assms(2) show ?thesis by (simp add: frame_refl)
next
  case (Some f)
  obtain y w1 where i: "invoke (CallMiddlewareFn req res) (f req res event) w = (y, w1)"
    by (cases "invoke (CallMiddlewareFn req res) (f req res event) w")
  with Some assms(3) have "w' = w1" by (auto simp add: forward_def split: sum.splits)
  moreover have "keeps r (f req res event)" using assms(1) Some by simp
  ultimately show ?thesis using invoke_frame [OF _ assms(2) i] by simp
qed

lemma getMiddleware_frame:
  assumes "req < length h"
      and "keeps req (shouldRefresh opts req)"
      and "keeps req (fetchTokenPair opts req)"
      and "\<forall>tp. keeps req (onSuccess opts (length h) tp)"
      and "\<forall>f e. onError opts = Some f \<longrightarrow> keeps req (f req (length h) e)"
      and "\<forall>f. middlewareFn = Some f \<longrightarrow> keeps req (f req (length h) event)"
  shows "frame req h (heap_of (snd (getMiddleware fw opts middlewareFn req event h)))"
proof -
  let ?res = "length h"
  let ?w1 = "\<lparr>heap_of = h @ [next_headers fw None], trace = []\<rparr>"
  have v1: "req < length (heap_of ?w1)" using assms(1) by simp
  have f0: "frame req h (heap_of ?w1)" using assms(1) by (simp add: frame_def nth_append)
  obtain x w2 where r: "refresh opts req ?res ?w1 = (x, w2)"
    by (cases "refresh opts req ?res ?w1")
  have f1: "frame req (heap_of ?w1) (heap_of w2)"
    using refresh_frame [OF assms(2) assms(3) assms(4) assms(5) v1 r] .
  with f0 have f2: "frame req h (heap_of w2)" by (rule frame_trans)
  have g: "getMiddleware fw opts middlewareFn req event h =
             (case x of Thrown e \<Rightarrow> (Inl e, w2) | Returned next \<Rightarrow> (Inr next, w2)
              | Continue \<Rightarrow> forward middlewareFn req ?res event (propagate fw req ?res w2))"
    using r by (simp add: getMiddleware_def NextResponse_next_def Headers_new_def)
  show ?thesis
  proof (cases x)
    case Continue
    let ?w3 = "propagate fw req ?res w2"
    have v2: "req < length (heap_of w2)" using f2 by (simp add: frame_def)
    have ne: "?res \<noteq> req" using assms(1) by simp
    have f3: "frame req (heap_of w2) (heap_of ?w3)"
      using applyCookies_req [OF v2 ne] by (simp add: frame_def propagate_def)
    then have v3: "req < length (heap_of ?w3)" by (simp add: frame_def)
    obtain y w4 where fw4: "forward middlewareFn req ?res event ?w3 = (y, w4)"
      by (cases "forward middlewareFn req ?res event ?w3")
    have "frame req (heap_of ?w3) (heap_of w4)"
      using forward_frame [OF assms(6) v3 fw4] .
    with f2 f3 have "frame req h (heap_of w4)" by (blast intro: frame_trans)
    with g Continue fw4 show ?thesis by simp
  next
    case (Returned v)
    with g f2 show ?thesis by simp
  next
    case (Thrown e)
    with g f2 show ?thesis by simp
  qed
qed

section \<open>The composer's paths\<close>

text \<open>
  Claim C1, as the code has it. The call of \<^verbatim>\<open>onSuccess\<close> stands inside the
  \<^verbatim>\<open>try\<close> block, after the awaited \<^verbatim>\<open>fetchTokenPair\<close>. When \<^verbatim>\<open>shouldRefresh\<close>
  returns true, \<^verbatim>\<open>fetchTokenPair\<close> resolves and \<^verbatim>\<open>onSuccess\<close> throws, the exception
  is caught like a failed fetch: without \<^verbatim>\<open>onError\<close> the composer goes on to the
  propagator and to forwarding, and with \<^verbatim>\<open>onError\<close> its fourth call is
  \<^verbatim>\<open>onError(req, res, error)\<close> with the thrown value, applied to the store
  \<^verbatim>\<open>onSuccess\<close> left: what it throws is thrown, a response it returns is returned, and
  otherwise the composer goes on to the propagator and to forwarding.
\<close>

theorem onSuccess_failure_is_caught:
  assumes "NextResponse_next fw None h0 = (res, h1)"
      and "shouldRefresh opts req h1 = (Inr True, h2)"
      and "fetchTokenPair opts req h2 = (Inr tokenPair, h3)"
      and "onSuccess opts res tokenPair h3 = (Inl e, h4)"
  shows "(onError opts = None \<longrightarrow>
            getMiddleware fw opts middlewareFn req event h0 =
              forward middlewareFn req res event
                \<lparr>heap_of = applyCookiesOnNextResponse fw req res h4,
                 trace = [CallShouldRefresh req, CallFetchTokenPair req,
                          CallOnSuccess res tokenPair, CallApplyCookies req res]\<rparr>)
       \<and> (\<forall>f. onError opts = Some f \<longrightarrow>
            take 4 (trace (snd (getMiddleware fw opts middlewareFn req event h0))) =
              [CallShouldRefresh req, CallFetchTokenPair req,
               CallOnSuccess res tokenPair, CallOnError req res e])
       \<and> (\<forall>f. onError opts = Some f \<longrightarrow>
            getMiddleware fw opts middlewareFn req event h0 =
              (case f req res e h4 of
                 (Inl e', h5) \<Rightarrow>
                   (Inl e',
                    \<lparr>heap_of = h5,
                     trace = [CallShouldRefresh req, CallFetchTokenPair req,
                              CallOnSuccess res tokenPair, CallOnError req res e]\<rparr>)
               | (Inr next, h5) \<Rightarrow>
                   if truthy next then
                     (Inr next,
                      \<lparr>heap_of = h5,
                       trace = [CallShouldRefresh req, CallFetchTokenPair req,
                                CallOnSuccess res tokenPair, CallOnError req res e]\<rparr>)
                   else
                     forward middlewareFn req res event
                       \<lparr>heap_of = applyCookiesOnNextResponse fw req res h5,
                        trace = [CallShouldRefresh req, CallFetchTokenPair req,
                                 CallOnSuccess res tokenPair, CallOnError req res e,
                                 CallApplyCookies req res]\<rparr>))"
  using assms
  by (auto simp add: composer_defs split: prod.splits sum.splits option.splits)

text \<open>The theorem of C1 on the sample callbacks, without and with \<^verbatim>\<open>onError\<close>.\<close>

theorem onSuccess_failure_is_caught_witness:
  "onSuccess throwing_opts 1 demo_tokens fresh_heap = (Inl (Error ''boom''), fresh_heap)
   \<and> onError throwing_opts = None
   \<and> getMiddleware nextjs throwing_opts None 0 () demo_heap =
       (Inr (Response 1),
        \<lparr>heap_of = applyCookiesOnNextResponse nextjs 0 1 fresh_heap,
         trace = [CallShouldRefresh 0, CallFetchTokenPair 0, CallOnSuccess 1 demo_tokens,
                  CallApplyCookies 0 1]\<rparr>)
   \<and> onError guarded_opts = Some login_redirect
   \<and> take 4 (trace (snd (getMiddleware nextjs guarded_opts None 0 () demo_heap))) =
       [CallShouldRefresh 0, CallFetchTokenPair 0, CallOnSuccess 1 demo_tokens,
        CallOnError 0 1 (Error ''boom'')]
   \<and> getMiddleware nextjs guarded_opts None 0 () demo_heap =
       (Inr (Response 2),
        \<lparr>heap_of = fresh_heap @ [[(''location'', ''/login'')]],
         trace = [CallShouldRefresh 0, CallFetchTokenPair 0, CallOnSuccess 1 demo_tokens,
                  CallOnError 0 1 (Error ''boom'')]\<rparr>)"
proof -
  have a: "NextResponse_next nextjs None demo_heap = (1, fresh_heap)"
    by (simp add: model_defs demo_defs)
  have b: "shouldRefresh throwing_opts 0 fresh_heap = (Inr True, fresh_heap)"
    and c: "fetchTokenPair throwing_opts 0 fresh_heap = (Inr demo_tokens, fresh_heap)"
    and d: "onSuccess throwing_opts 1 demo_tokens fresh_heap = (Inl (Error ''boom''), fresh_heap)"
    and e: "onError throwing_opts = None"
    by (simp_all add: throwing_opts_def demo_opts_def returns_def throws_def)
  have b': "shouldRefresh guarded_opts 0 fresh_heap = (Inr True, fresh_heap)"
    and c': "fetchTokenPair guarded_opts 0 fresh_heap = (Inr demo_tokens, fresh_heap)"
    and d': "onSuccess guarded_opts 1 demo_tokens fresh_heap = (Inl (Error ''boom''), fresh_heap)"
    and e': "onError guarded_opts = Some login_redirect"
    by (simp_all add: guarded_opts_def throwing_opts_def demo_opts_def returns_def throws_def)
  have r: "login_redirect 0 1 (Error ''boom'') fresh_heap
             = (Inr (Response 2), fresh_heap @ [[(''location'', ''/login'')]])"
    by (simp add: login_redirect_def fresh_heap_def demo_heap_def)
  note t = onSuccess_failure_is_caught [OF a b c d, of None "()"]
  note t' = onSuccess_failure_is_caught [OF a b' c' d', of None "()"]
  have s1: "getMiddleware nextjs throwing_opts None 0 () demo_heap =
       (Inr (Response 1),
        \<lparr>heap_of = applyCookiesOnNextResponse nextjs 0 1 fresh_heap,
         trace = [CallShouldRefresh 0, CallFetchTokenPair 0, CallOnSuccess 1 demo_tokens,
                  CallApplyCookies 0 1]\<rparr>)"
    using t [THEN conjunct1, rule_format, OF e] by (simp add: forward_def)
  have s2: "take 4 (trace (snd (getMiddleware nextjs guarded_opts None 0 () demo_heap))) =
       [CallShouldRefresh 0, CallFetchTokenPair 0, CallOnSuccess 1 demo_tokens,
        CallOnError 0 1 (Error ''boom'')]"
    using t' [THEN conjunct2, THEN conjunct1, rule_format, OF e'] .
  have s3: "getMiddleware nextjs guarded_opts None 0 () demo_heap =
       (Inr (Response 2),
        \<lparr>heap_of = fresh_heap @ [[(''location'', ''/login'')]],
         trace = [CallShouldRefresh 0, CallFetchTokenPair 0, CallOnSuccess 1 demo_tokens,
                  CallOnError 0 1 (Error ''boom'')]\<rparr>)"
    using t' [THEN conjunct2, THEN conjunct2, rule_format, OF e']
    by (simp only: r prod.case sum.case truthy.simps if_True)
  from d e s1 e' s2 s3 show ?thesis by blast
qed

text \<open>
  Claim C1 as stated (the exception of \<^verbatim>\<open>onSuccess\<close> reaches the caller) fails:
  here \<^verbatim>\<open>onSuccess\<close> throws and the composed handler returns the pass-through response.
\<close>

theorem onSuccess_exception_does_not_escape:
  "fst (onSuccess throwing_opts 1 demo_tokens fresh_heap) = Inl (Error ''boom'')
   \<and> CallOnSuccess 1 demo_tokens \<in> set (trace (snd (getMiddleware nextjs throwing_opts None 0 () demo_heap)))
   \<and> fst (getMiddleware nextjs throwing_opts None 0 () demo_heap) = Inr (Response 1)
   \<and> fst (getMiddleware nextjs throwing_opts None 0 () demo_heap) \<noteq> Inl (Error ''boom'')"
  by (simp add: model_defs demo_defs)

text \<open>
  Claim C2, as the code has it. The propagator is called after the \<^verbatim>\<open>if\<close>, on every
  path that falls through. When \<^verbatim>\<open>shouldRefresh\<close> returns false, the composer calls
  neither \<^verbatim>\<open>fetchTokenPair\<close> nor \<^verbatim>\<open>onSuccess\<close> nor \<^verbatim>\<open>onError\<close>, runs the
  propagator on the request and the pass-through response, and forwards from the store
  the propagator left.
\<close>

theorem skipped_refresh_still_propagates:
  assumes "NextResponse_next fw None h0 = (res, h1)"
      and "shouldRefresh opts req h1 = (Inr False, h2)"
  shows "getMiddleware fw opts middlewareFn req event h0 =
           forward middlewareFn req res event
             \<lparr>heap_of = applyCookiesOnNextResponse fw req res h2,
              trace = [CallShouldRefresh req, CallApplyCookies req res]\<rparr>"
  using assms
  by (simp add: getMiddleware_def refresh_def propagate_def invoke_def)

text \<open>The theorem of C2 on a request that needs no refresh.\<close>

theorem skipped_refresh_still_propagates_witness:
  "shouldRefresh (demo_opts False) 0 fresh_heap = (Inr False, fresh_heap)
   \<and> getMiddleware nextjs (demo_opts False) (Some passing_handler) 0 () demo_heap =
       (Inr (Response 1),
        \<lparr>heap_of = applyCookiesOnNextResponse nextjs 0 1 fresh_heap,
         trace = [CallShouldRefresh 0, CallApplyCookies 0 1, CallMiddlewareFn 0 1]\<rparr>)"
proof -
  have a: "NextResponse_next nextjs None demo_heap = (1, fresh_heap)"
    by (simp add: model_defs demo_defs)
  have b: "shouldRefresh (demo_opts False) 0 fresh_heap = (Inr False, fresh_heap)"
    by (simp add: demo_opts_def returns_def)
  show ?thesis
    using skipped_refresh_still_propagates [OF a b, of "Some passing_handler" "()"] b
    by (simp add: forward_def invoke_def passing_handler_def returns_def)
qed

text \<open>
  Claim C2 as stated (no propagator run when \<^verbatim>\<open>shouldRefresh\<close> is false) fails: the
  propagator is the second call, and it has written the routing headers to the response.
\<close>

theorem propagator_runs_without_refresh:
  "shouldRefresh (demo_opts False) 0 fresh_heap = (Inr False, fresh_heap)
   \<and> trace (snd (getMiddleware nextjs (demo_opts False) None 0 () demo_heap))
       = [CallShouldRefresh 0, CallApplyCookies 0 1]
   \<and> heap_of (snd (getMiddleware nextjs (demo_opts False) None 0 () demo_heap)) ! 1
       = [(''x-middleware-next'', ''1''),
          (''x-middleware-request-cookie'', ''theme=dark''),
          (''x-middleware-request-host'', ''example.com''),
          (''x-middleware-override-headers'', ''cookie,host'')]"
  by (simp add: model_defs demo_defs)

text \<open>
  Claim C3, as the code has it. When \<^verbatim>\<open>shouldRefresh\<close> returns false, the composer
  calls neither \<^verbatim>\<open>fetchTokenPair\<close> nor \<^verbatim>\<open>onSuccess\<close>, and its value is: the
  pass-through response when there is no next-stage handler; what the handler throws
  when it throws; the handler's result when that is a response; and the pass-through
  response when the handler's result is \<^verbatim>\<open>null\<close> or \<^verbatim>\<open>undefined\<close>.
\<close>

theorem skipped_refresh_result:
  assumes "NextResponse_next fw None h0 = (res, h1)"
      and "shouldRefresh opts req h1 = (Inr False, h2)"
  shows "fst (getMiddleware fw opts middlewareFn req event h0) =
           (case middlewareFn of
              None \<Rightarrow> Inr (Response res)
            | Some f \<Rightarrow>
                (case fst (f req res event (applyCookiesOnNextResponse fw req res h2)) of
                   Inl e \<Rightarrow> Inl e
                 | Inr v \<Rightarrow> Inr (if nullish v then Response res else v)))
         \<and> CallFetchTokenPair req \<notin> set (trace (snd (getMiddleware fw opts middlewareFn req event h0)))
         \<and> filter is_onSuccess (trace (snd (getMiddleware fw opts middlewareFn req event h0))) = []"
  using assms
  by (auto simp add: composer_defs split: prod.splits sum.splits option.splits)

text \<open>The theorem of C3 with a handler that returns, one that does not, and none.\<close>

theorem skipped_refresh_result_witness:
  "shouldRefresh (demo_opts False) 0 fresh_heap = (Inr False, fresh_heap)
   \<and> fst (getMiddleware nextjs (demo_opts False) (Some passing_handler) 0 () demo_heap)
       = fst (passing_handler 0 1 () (applyCookiesOnNextResponse nextjs 0 1 fresh_heap))
   \<and> fst (getMiddleware nextjs (demo_opts False) (Some silent_handler) 0 () demo_heap)
       = Inr (Response 1)
   \<and> fst (getMiddleware nextjs (demo_opts False) None 0 () demo_heap) = Inr (Response 1)
   \<and> CallFetchTokenPair 0 \<notin>
       set (trace (snd (getMiddleware nextjs (demo_opts False) (Some passing_handler) 0 () demo_heap)))
   \<and> filter is_onSuccess
       (trace (snd (getMiddleware nextjs (demo_opts False) (Some passing_handler) 0 () demo_heap))) = []"
proof -
  have a: "NextResponse_next nextjs None demo_heap = (1, fresh_heap)"
    by (simp add: model_defs demo_defs)
  have b: "shouldRefresh (demo_opts False) 0 fresh_heap = (Inr False, fresh_heap)"
    by (simp add: demo_opts_def returns_def)
  show ?thesis
    using skipped_refresh_result [OF a b, of "Some passing_handler" "()"] skipped_refresh_result [OF a b, of "Some silent_handler" "()"]
      skipped_refresh_result [OF a b, of None "()"] b
    by (simp add: passing_handler_def silent_handler_def returns_def)
qed

text \<open>
  Claim C3 as stated (the value is exactly the handler's result) fails for a handler
  whose result is \<^verbatim>\<open>undefined\<close>: the composed handler returns the pass-through response.
\<close>

theorem nullish_forward_result_is_replaced:
  "shouldRefresh (demo_opts False) 0 fresh_heap = (Inr False, fresh_heap)
   \<and> fst (silent_handler 0 1 () (applyCookiesOnNextResponse nextjs 0 1 fresh_heap)) = Inr Undefined
   \<and> fst (getMiddleware nextjs (demo_opts False) (Some silent_handler) 0 () demo_heap)
       = Inr (Response 1)
   \<and> fst (getMiddleware nextjs (demo_opts False) (Some silent_handler) 0 () demo_heap)
       \<noteq> fst (silent_handler 0 1 () (applyCookiesOnNextResponse nextjs 0 1 fresh_heap))"
  by (simp add: model_defs demo_defs)

text \<open>
  Claim C4. When \<^verbatim>\<open>shouldRefresh\<close> returns true and \<^verbatim>\<open>fetchTokenPair\<close> resolves,
  the composer calls \<^verbatim>\<open>onSuccess\<close> exactly once, with the pass-through response made at
  the start of the invocation and the token pair the fetch resolved with, whatever the
  other callbacks do. The call is applied, not only recorded: when it returns, the
  composer goes on from the store \<^verbatim>\<open>onSuccess\<close> left, through the propagator to
  forwarding; when it throws, the catch block runs from the store it left, with the
  thrown value.
\<close>

theorem onSuccess_called_once:
  assumes "NextResponse_next fw None h0 = (res, h1)"
      and "shouldRefresh opts req h1 = (Inr True, h2)"
      and "fetchTokenPair opts req h2 = (Inr tokenPair, h3)"
  shows "filter is_onSuccess (trace (snd (getMiddleware fw opts middlewareFn req event h0)))
           = [CallOnSuccess res tokenPair]
       \<and> (\<forall>h4. onSuccess opts res tokenPair h3 = (Inr (), h4) \<longrightarrow>
             getMiddleware fw opts middlewareFn req event h0 =
               forward middlewareFn req res event
                 \<lparr>heap_of = applyCookiesOnNextResponse fw req res h4,
                  trace = [CallShouldRefresh req, CallFetchTokenPair req,
                           CallOnSuccess res tokenPair, CallApplyCookies req res]\<rparr>)
       \<and> (\<forall>e h4. onSuccess opts res tokenPair h3 = (Inl e, h4) \<longrightarrow>
             getMiddleware fw opts middlewareFn req event h0 =
               (case onError opts of
                  None \<Rightarrow>
                    forward middlewareFn req res event
                      \<lparr>heap_of = applyCookiesOnNextResponse fw req res h4,
                       trace = [CallShouldRefresh req, CallFetchTokenPair req,
                                CallOnSuccess res tokenPair, CallApplyCookies req res]\<rparr>
                | Some f \<Rightarrow>
                    (case f req res e h4 of
                       (Inl e', h5) \<Rightarrow>
                         (Inl e',
                          \<lparr>heap_of = h5,
                           trace = [CallShouldRefresh req, CallFetchTokenPair req,
                                    CallOnSuccess res tokenPair, CallOnError req res e]\<rparr>)
                     | (Inr next, h5) \<Rightarrow>
                         if truthy next then
                           (Inr next,
                            \<lparr>heap_of = h5,
                             trace = [CallShouldRefresh req, CallFetchTokenPair req,
                                      CallOnSuccess res tokenPair, CallOnError req res e]\<rparr>)
                         else
                           forward middlewareFn req res event
                             \<lparr>heap_of = applyCookiesOnNextResponse fw req res h5,
                              trace = [CallShouldRefresh req, CallFetchTokenPair req,
                                       CallOnSuccess res tokenPair, CallOnError req res e,
                                       CallApplyCookies req res]\<rparr>)))"
proof (intro conjI allI impI)
  show "filter is_onSuccess (trace (snd (getMiddleware fw opts middlewareFn req event h0)))
           = [CallOnSuccess res tokenPair]"
    using assms
    by (auto simp add: composer_defs split: prod.splits sum.splits option.splits if_splits flow.splits)
next
  fix h4
  assume "onSuccess opts res tokenPair h3 = (Inr (), h4)"
  with assms show "getMiddleware fw opts middlewareFn req event h0 =
               forward middlewareFn req res event
                 \<lparr>heap_of = applyCookiesOnNextResponse fw req res h4,
                  trace = [CallShouldRefresh req, CallFetchTokenPair req,
                           CallOnSuccess res tokenPair, CallApplyCookies req res]\<rparr>"
    by (simp add: getMiddleware_def refresh_def try_block_def propagate_def invoke_def)
next
  fix e h4
  assume "onSuccess opts res tokenPair h3 = (Inl e, h4)"
  with assms show "getMiddleware fw opts middlewareFn req event h0 =
               (case onError opts of
                  None \<Rightarrow>
                    forward middlewareFn req res event
                      \<lparr>heap_of = applyCookiesOnNextResponse fw req res h4,
                       trace = [CallShouldRefresh req, CallFetchTokenPair req,
                                CallOnSuccess res tokenPair, CallApplyCookies req res]\<rparr>
                | Some f \<Rightarrow>
                    (case f req res e h4 of
                       (Inl e', h5) \<Rightarrow>
                         (Inl e',
                          \<lparr>heap_of = h5,
                           trace = [CallShouldRefresh req, CallFetchTokenPair req,
                                    CallOnSuccess res tokenPair, CallOnError req res e]\<rparr>)
                     | (Inr next, h5) \<Rightarrow>
                         if truthy next then
                           (Inr next,
                            \<lparr>heap_of = h5,
                             trace = [CallShouldRefresh req, CallFetchTokenPair req,
                                      CallOnSuccess res tokenPair, CallOnError req res e]\<rparr>)
                         else
                           forward middlewareFn req res event
                             \<lparr>heap_of = applyCookiesOnNextResponse fw req res h5,
                              trace = [CallShouldRefresh req, CallFetchTokenPair req,
                                       CallOnSuccess res tokenPair, CallOnError req res e,
                                       CallApplyCookies req res]\<rparr>))"
    by (simp add: getMiddleware_def refresh_def try_block_def catch_block_def propagate_def
        invoke_def split: option.splits prod.splits sum.splits)
qed

text \<open>The theorem of C4 on the callbacks of the README.\<close>

theorem onSuccess_called_once_witness:
  "shouldRefresh (demo_opts True) 0 fresh_heap = (Inr True, fresh_heap)
   \<and> fetchTokenPair (demo_opts True) 0 fresh_heap = (Inr demo_tokens, fresh_heap)
   \<and> onSuccess (demo_opts True) 1 demo_tokens fresh_heap = (Inr (), token_heap)
   \<and> filter is_onSuccess
       (trace (snd (getMiddleware nextjs (demo_opts True) (Some passing_handler) 0 () demo_heap)))
       = [CallOnSuccess 1 demo_tokens]
   \<and> getMiddleware nextjs (demo_opts True) (Some passing_handler) 0 () demo_heap =
       (Inr (Response 1),
        \<lparr>heap_of = applyCookiesOnNextResponse nextjs 0 1 token_heap,
         trace = [CallShouldRefresh 0, CallFetchTokenPair 0, CallOnSuccess 1 demo_tokens,
                  CallApplyCookies 0 1, CallMiddlewareFn 0 1]\<rparr>)
   \<and> applyCookiesOnNextResponse nextjs 0 1 token_heap ! 1 =
       [(''x-middleware-next'', ''1''),
        (''set-cookie'', ''access-token=AT2; Path=/; Max-Age=604800''),
        (''set-cookie'', ''refresh-token=RT2; Path=/; Max-Age=604800''),
        (''x-middleware-request-cookie'', ''theme=dark; access-token=AT2; refresh-token=RT2''),
        (''x-middleware-request-host'', ''example.com''),
        (''x-middleware-override-headers'', ''cookie,host'')]
   \<and> onSuccess throwing_opts 1 demo_tokens fresh_heap = (Inl (Error ''boom''), fresh_heap)
   \<and> onError throwing_opts = None
   \<and> getMiddleware nextjs throwing_opts (Some passing_handler) 0 () demo_heap =
       (Inr (Response 1),
        \<lparr>heap_of = applyCookiesOnNextResponse nextjs 0 1 fresh_heap,
         trace = [CallShouldRefresh 0, CallFetchTokenPair 0, CallOnSuccess 1 demo_tokens,
                  CallApplyCookies 0 1, CallMiddlewareFn 0 1]\<rparr>)
   \<and> onSuccess guarded_opts 1 demo_tokens fresh_heap = (Inl (Error ''boom''), fresh_heap)
   \<and> onError guarded_opts = Some login_redirect
   \<and> getMiddleware nextjs guarded_opts (Some passing_handler) 0 () demo_heap =
       (Inr (Response 2),
        \<lparr>heap_of = fresh_heap @ [[(''location'', ''/login'')]],
         trace = [CallShouldRefresh 0, CallFetchTokenPair 0, CallOnSuccess 1 demo_tokens,
                  CallOnError 0 1 (Error ''boom'')]\<rparr>)"
proof -
  have a: "NextResponse_next nextjs None demo_heap = (1, fresh_heap)"
    by (simp add: model_defs demo_defs)
  have b: "shouldRefresh (demo_opts True) 0 fresh_heap = (Inr True, fresh_heap)"
    and c: "fetchTokenPair (demo_opts True) 0 fresh_heap = (Inr demo_tokens, fresh_heap)"
    by (simp_all add: demo_opts_def returns_def)
  have d: "onSuccess (demo_opts True) 1 demo_tokens fresh_heap = (Inr (), token_heap)"
    by (simp add: demo_defs token_heap_def)
  have b2: "shouldRefresh throwing_opts 0 fresh_heap = (Inr True, fresh_heap)"
    and c2: "fetchTokenPair throwing_opts 0 fresh_heap = (Inr demo_tokens, fresh_heap)"
    and d2: "onSuccess throwing_opts 1 demo_tokens fresh_heap = (Inl (Error ''boom''), fresh_heap)"
    and e2: "onError throwing_opts = None"
    by (simp_all add: throwing_opts_def demo_opts_def returns_def throws_def)
  have b3: "shouldRefresh guarded_opts 0 fresh_heap = (Inr True, fresh_heap)"
    and c3: "fetchTokenPair guarded_opts 0 fresh_heap = (Inr demo_tokens, fresh_heap)"
    and d3: "onSuccess guarded_opts 1 demo_tokens fresh_heap = (Inl (Error ''boom''), fresh_heap)"
    and e3: "onError guarded_opts = Some login_redirect"
    by (simp_all add: guarded_opts_def throwing_opts_def demo_opts_def returns_def throws_def)
  have r: "login_redirect 0 1 (Error ''boom'') fresh_heap
             = (Inr (Response 2), fresh_heap @ [[(''location'', ''/login'')]])"
    by (simp add: login_redirect_def fresh_heap_def demo_heap_def)
  have p: "\<And>h. forward (Some passing_handler) 0 1 ()
                  \<lparr>heap_of = h, trace = [CallShouldRefresh 0, CallFetchTokenPair 0,
                     CallOnSuccess 1 demo_tokens, CallApplyCookies 0 1]\<rparr>
             = (Inr (Response 1),
                \<lparr>heap_of = h, trace = [CallShouldRefresh 0, CallFetchTokenPair 0,
                     CallOnSuccess 1 demo_tokens, CallApplyCookies 0 1, CallMiddlewareFn 0 1]\<rparr>)"
    by (simp add: forward_def invoke_def passing_handler_def returns_def)
  note t1 = onSuccess_called_once [OF a b c, of "Some passing_handler" "()"]
  note t2 = onSuccess_called_once [OF a b2 c2, of "Some passing_handler" "()"]
  note t3 = onSuccess_called_once [OF a b3 c3, of "Some passing_handler" "()"]
  have s1: "filter is_onSuccess
       (trace (snd (getMiddleware nextjs (demo_opts True) (Some passing_handler) 0 () demo_heap)))
       = [CallOnSuccess 1 demo_tokens]"
    using t1 by blast
  have s2: "getMiddleware nextjs (demo_opts True) (Some passing_handler) 0 () demo_heap =
       (Inr (Response 1),
        \<lparr>heap_of = applyCookiesOnNextResponse nextjs 0 1 token_heap,
         trace = [CallShouldRefresh 0, CallFetchTokenPair 0, CallOnSuccess 1 demo_tokens,
                  CallApplyCookies 0 1, CallMiddlewareFn 0 1]\<rparr>)"
    using t1 [THEN conjunct2, THEN conjunct1, rule_format, OF d] by (simp only: p)
  have s3: "getMiddleware nextjs throwing_opts (Some passing_handler) 0 () demo_heap =
       (Inr (Response 1),
        \<lparr>heap_of = applyCookiesOnNextResponse nextjs 0 1 fresh_heap,
         trace = [CallShouldRefresh 0, CallFetchTokenPair 0, CallOnSuccess 1 demo_tokens,
                  CallApplyCookies 0 1, CallMiddlewareFn 0 1]\<rparr>)"
    using t2 [THEN conjunct2, THEN conjunct2, rule_format, OF d2]
    by (simp only: e2 option.case p)
  have s4: "getMiddleware nextjs guarded_opts (Some passing_handler) 0 () demo_heap =
       (Inr (Response 2),
        \<lparr>heap_of = fresh_heap @ [[(''location'', ''/login'')]],
         trace = [CallShouldRefresh 0, CallFetchTokenPair 0, CallOnSuccess 1 demo_tokens,
                  CallOnError 0 1 (Error ''boom'')]\<rparr>)"
    using t3 [THEN conjunct2, THEN conjunct2, rule_format, OF d3]
    by (simp only: e3 option.case r prod.case sum.case truthy.simps if_True)
  have v: "applyCookiesOnNextResponse nextjs 0 1 token_heap ! 1 =
       [(''x-middleware-next'', ''1''),
        (''set-cookie'', ''access-token=AT2; Path=/; Max-Age=604800''),
        (''set-cookie'', ''refresh-token=RT2; Path=/; Max-Age=604800''),
        (''x-middleware-request-cookie'', ''theme=dark; access-token=AT2; refresh-token=RT2''),
        (''x-middleware-request-host'', ''example.com''),
        (''x-middleware-override-headers'', ''cookie,host'')]"
    by (simp add: model_defs demo_defs token_heap_def)
  from b c d s1 s2 v d2 e2 s3 d3 e3 s4 show ?thesis by blast
qed

text \<open>
  Claim C5. When the \<^verbatim>\<open>try\<close> block fails and \<^verbatim>\<open>onError\<close> is supplied and returns a
  response object, that object is the value of the composed handler, the store is the
  one \<^verbatim>\<open>onError\<close> left, and the composer has called neither the propagator nor the
  next-stage handler.
\<close>

theorem onError_response_short_circuits:
  assumes "NextResponse_next fw None h0 = (res, h1)"
      and "shouldRefresh opts req h1 = (Inr True, h2)"
      and "try_block opts req res \<lparr>heap_of = h2, trace = [CallShouldRefresh req]\<rparr> = (Inl err, w)"
      and "onError opts = Some f"
      and "f req res err (heap_of w) = (Inr (Response next), h')"
  shows "getMiddleware fw opts middlewareFn req event h0 =
           (Inr (Response next), \<lparr>heap_of = h', trace = trace w @ [CallOnError req res err]\<rparr>)
         \<and> CallApplyCookies req res \<notin> set (trace (snd (getMiddleware fw opts middlewareFn req event h0)))
         \<and> CallMiddlewareFn req res \<notin> set (trace (snd (getMiddleware fw opts middlewareFn req event h0)))"
  using assms
  by (auto simp add: composer_defs split: prod.splits sum.splits)

text \<open>The theorem of C5: the network is down and \<^verbatim>\<open>onError\<close> redirects to the login page.\<close>

theorem onError_response_short_circuits_witness:
  "try_block redirecting_opts 0 1 \<lparr>heap_of = fresh_heap, trace = [CallShouldRefresh 0]\<rparr>
     = (Inl (Error ''network''),
        \<lparr>heap_of = fresh_heap, trace = [CallShouldRefresh 0, CallFetchTokenPair 0]\<rparr>)
   \<and> onError redirecting_opts = Some login_redirect
   \<and> login_redirect 0 1 (Error ''network'') fresh_heap
       = (Inr (Response 2), fresh_heap @ [[(''location'', ''/login'')]])
   \<and> getMiddleware nextjs redirecting_opts (Some passing_handler) 0 () demo_heap =
       (Inr (Response 2),
        \<lparr>heap_of = fresh_heap @ [[(''location'', ''/login'')]],
         trace = [CallShouldRefresh 0, CallFetchTokenPair 0, CallOnError 0 1 (Error ''network'')]\<rparr>)
   \<and> CallApplyCookies 0 1 \<notin>
       set (trace (snd (getMiddleware nextjs redirecting_opts (Some passing_handler) 0 () demo_heap)))
   \<and> CallMiddlewareFn 0 1 \<notin>
       set (trace (snd (getMiddleware nextjs redirecting_opts (Some passing_handler) 0 () demo_heap)))"
proof -
  have a: "NextResponse_next nextjs None demo_heap = (1, fresh_heap)"
    by (simp add: model_defs demo_defs)
  have b: "shouldRefresh redirecting_opts 0 fresh_heap = (Inr True, fresh_heap)"
    by (simp add: demo_defs)
  have c: "try_block redirecting_opts 0 1 \<lparr>heap_of = fresh_heap, trace = [CallShouldRefresh 0]\<rparr>
     = (Inl (Error ''network''),
        \<lparr>heap_of = fresh_heap, trace = [CallShouldRefresh 0, CallFetchTokenPair 0]\<rparr>)"
    by (simp add: try_block_def invoke_def redirecting_opts_def offline_opts_def demo_opts_def
        throws_def)
  have d: "onError redirecting_opts = Some login_redirect"
    by (simp add: redirecting_opts_def)
  have e: "login_redirect 0 1 (Error ''network'') fresh_heap
       = (Inr (Response 2), fresh_heap @ [[(''location'', ''/login'')]])"
    by (simp add: login_redirect_def fresh_heap_def demo_heap_def)
  have e': "login_redirect 0 1 (Error ''network'')
              (heap_of \<lparr>heap_of = fresh_heap, trace = [CallShouldRefresh 0, CallFetchTokenPair 0]\<rparr>)
       = (Inr (Response 2), fresh_heap @ [[(''location'', ''/login'')]])"
    using e by simp
  show ?thesis
    using onError_response_short_circuits [where f = login_redirect, OF a b c d e', of "Some passing_handler" "()"] c d e
    by simp
qed



text \<open>
  Claim C10. When the composer reaches the forwarding step with a next-stage handler
  and the handler returns \<^verbatim>\<open>null\<close> or \<^verbatim>\<open>undefined\<close>, the composed handler returns
  the pass-through response made at the start of the invocation.
\<close>

theorem nullish_handler_result_falls_back:
  assumes "NextResponse_next fw None h0 = (res, h1)"
      and "refresh opts req res \<lparr>heap_of = h1, trace = []\<rparr> = (Continue, w)"
      and "f req res event (heap_of (propagate fw req res w)) = (Inr v, h')"
      and "nullish v"
  shows "fst (getMiddleware fw opts (Some f) req event h0) = Inr (Response res)"
  using assms by (simp add: getMiddleware_def forward_def invoke_def)

text \<open>The theorem of C10 with a handler that has no \<^verbatim>\<open>return\<close>.\<close>

theorem nullish_handler_result_falls_back_witness:
  "fst (silent_handler 0 1 () (heap_of (propagate nextjs 0 1 \<lparr>heap_of = fresh_heap, trace = [CallShouldRefresh 0]\<rparr>)))
     = Inr Undefined
   \<and> nullish Undefined
   \<and> fst (getMiddleware nextjs (demo_opts False) (Some silent_handler) 0 () demo_heap) = Inr (Response 1)"
proof -
  have a: "NextResponse_next nextjs None demo_heap = (1, fresh_heap)"
    by (simp add: model_defs demo_defs)
  have b: "refresh (demo_opts False) 0 1 \<lparr>heap_of = fresh_heap, trace = []\<rparr>
             = (Continue, \<lparr>heap_of = fresh_heap, trace = [CallShouldRefresh 0]\<rparr>)"
    by (simp add: model_defs demo_defs)
  have c: "silent_handler 0 1 () (heap_of (propagate nextjs 0 1 \<lparr>heap_of = fresh_heap, trace = [CallShouldRefresh 0]\<rparr>))
             = (Inr Undefined, heap_of (propagate nextjs 0 1 \<lparr>heap_of = fresh_heap, trace = [CallShouldRefresh 0]\<rparr>))"
    by (simp add: silent_handler_def returns_def)
  have d: "nullish Undefined" by simp
  show ?thesis using nullish_handler_result_falls_back [where f = silent_handler, OF a b c d] c by simp
qed

section \<open>The propagator's effects\<close>

text \<open>
  Claim C7. For a response in the store, the propagator puts every cookie of the
  response into the jar over the derived copy of the request's headers (the new object
  at the end of the store): each is in the merged jar with its value, the copy's
  \<^verbatim>\<open>cookie\<close> header is the merged jar, and the copy's other headers are the request's;
  the copy is the request's headers when the response has no cookie, and the request's
  headers with that \<^verbatim>\<open>cookie\<close> header set otherwise. On the response it writes the
  routing headers of the response that \<^verbatim>\<open>NextResponse.next\<close> makes of the copy, and
  nothing else: the response's headers are the merge of those routing headers into the
  old ones, so the entries under every other name are the same before and after. The
  store grows by two objects, and no other object of it changes.
\<close>

theorem propagator_copies_cookies_sets_routing_only:
  assumes "res < length h"
  shows "let cs = getAll (ResponseCookies_new fw (h ! res));
             merged = store_all cs (RequestCookies_new fw (h ! req));
             h' = applyCookiesOnNextResponse fw req res h
         in (\<forall>c \<in> set cs. map_of merged (fst c) = Some (snd c))
          \<and> (cs \<noteq> [] \<longrightarrow> Headers_get (h' ! length h) ''cookie''
                            = Some (join ''; '' (map (stringifyCookie fw) merged)))
          \<and> filter (\<lambda>(k, _). k \<noteq> ''cookie'') (h' ! length h)
              = filter (\<lambda>(k, _). k \<noteq> ''cookie'') (h ! req)
          \<and> filter (\<lambda>(k, _). \<not> routing_header k) (h' ! res)
              = filter (\<lambda>(k, _). \<not> routing_header k) (h ! res)
          \<and> h' ! length h =
              (if cs = [] then h ! req
               else Headers_set ''cookie'' (join ''; '' (map (stringifyCookie fw) merged)) (h ! req))
          \<and> h' ! res = merge_routing (next_headers fw (Some (h' ! length h))) (h ! res)
          \<and> length h' = length h + 2
          \<and> (\<forall>i < length h. i \<noteq> res \<longrightarrow> h' ! i = h ! i)"
proof -
  let ?cs = "getAll (ResponseCookies_new fw (h ! res))"
  let ?h' = "applyCookiesOnNextResponse fw req res h"
  have copy: "?h' ! length h = derived_copy fw req res h"
    using assms by (simp add: applyCookies_valid nth_append)
  have out: "?h' ! res = merge_routing (next_headers fw (Some (derived_copy fw req res h))) (h ! res)"
    using assms by (simp add: applyCookies_valid nth_append)
  have a: "\<forall>c \<in> set ?cs. map_of (store_all ?cs (RequestCookies_new fw (h ! req))) (fst c) = Some (snd c)"
    using store_all_member [OF distinct_ResponseCookies] by blast
  have b: "?cs \<noteq> [] \<longrightarrow> Headers_get (?h' ! length h) ''cookie''
             = Some (join ''; '' (map (stringifyCookie fw) (store_all ?cs (RequestCookies_new fw (h ! req)))))"
    by (simp add: copy derived_copy_def Let_def Headers_get_set)
  have c: "filter (\<lambda>(k, _). k \<noteq> ''cookie'') (?h' ! length h)
             = filter (\<lambda>(k, _). k \<noteq> ''cookie'') (h ! req)"
    using filter_Headers_set [of "\<lambda>k. k \<noteq> ''cookie''" "''cookie''"]
    by (simp add: copy derived_copy_def Let_def)
  have d: "filter (\<lambda>(k, _). \<not> routing_header k) (?h' ! res)
             = filter (\<lambda>(k, _). \<not> routing_header k) (h ! res)"
    by (simp add: out filter_merge_routing)
  have e: "?h' ! length h =
             (if ?cs = [] then h ! req
              else Headers_set ''cookie''
                     (join ''; '' (map (stringifyCookie fw) (store_all ?cs (RequestCookies_new fw (h ! req)))))
                     (h ! req))"
    by (simp add: copy derived_copy_def Let_def)
  have f: "?h' ! res = merge_routing (next_headers fw (Some (?h' ! length h))) (h ! res)"
    by (simp add: out copy)
  have g: "length ?h' = length h + 2"
    using assms by (simp add: applyCookies_valid)
  have i: "\<forall>i < length h. i \<noteq> res \<longrightarrow> ?h' ! i = h ! i"
    using assms by (simp add: applyCookies_valid nth_append)
  from a b c d e f g i show ?thesis unfolding Let_def by blast
qed

text \<open>
  The theorem of C7 on a response with the cookies \<^verbatim>\<open>a=1\<close> and \<^verbatim>\<open>b=2\<close> and a request
  that has neither.
\<close>

theorem propagator_copies_cookies_sets_routing_only_witness:
  "1 < length cookie_heap
   \<and> getAll (ResponseCookies_new nextjs (cookie_heap ! 1)) = [(''a'', ''1''), (''b'', ''2'')]
   \<and> Headers_get (applyCookiesOnNextResponse nextjs 0 1 cookie_heap ! 2) ''cookie''
       = Some ''theme=dark; a=1; b=2''
   \<and> filter (\<lambda>(k, _). \<not> routing_header k) (applyCookiesOnNextResponse nextjs 0 1 cookie_heap ! 1)
       = cookie_heap ! 1
   \<and> applyCookiesOnNextResponse nextjs 0 1 cookie_heap ! 2
       = [(''cookie'', ''theme=dark; a=1; b=2''), (''host'', ''example.com'')]
   \<and> applyCookiesOnNextResponse nextjs 0 1 cookie_heap ! 1
       = merge_routing
           (next_headers nextjs (Some [(''cookie'', ''theme=dark; a=1; b=2''), (''host'', ''example.com'')]))
           (cookie_heap ! 1)
   \<and> applyCookiesOnNextResponse nextjs 0 1 cookie_heap ! 1
       = [(''x-middleware-next'', ''1''), (''set-cookie'', ''a=1; Path=/''),
          (''set-cookie'', ''b=2; Path=/''),
          (''x-middleware-request-cookie'', ''theme=dark; a=1; b=2''),
          (''x-middleware-request-host'', ''example.com''),
          (''x-middleware-override-headers'', ''cookie,host'')]
   \<and> length (applyCookiesOnNextResponse nextjs 0 1 cookie_heap) = 4
   \<and> applyCookiesOnNextResponse nextjs 0 1 cookie_heap ! 0 = cookie_heap ! 0"
proof -
  have a: "1 < length cookie_heap" by (simp add: demo_defs)
  have b: "getAll (ResponseCookies_new nextjs (cookie_heap ! 1)) = [(''a'', ''1''), (''b'', ''2'')]"
    by (simp add: model_defs demo_defs)
  have c: "store_all [(''a'', ''1''), (''b'', ''2'')] (RequestCookies_new nextjs (cookie_heap ! 0))
             = [(''theme'', ''dark''), (''a'', ''1''), (''b'', ''2'')]"
    by (simp add: store_all_def model_defs demo_defs)
  have d: "length cookie_heap = 2" by (simp add: demo_defs)
  have e: "filter (\<lambda>(k, _). \<not> routing_header k) (cookie_heap ! 1) = cookie_heap ! 1"
    by (simp add: routing_header_def startsWith_def demo_defs)
  have j: "join ''; '' (map (stringifyCookie nextjs) [(''theme'', ''dark''), (''a'', ''1''), (''b'', ''2'')])
             = ''theme=dark; a=1; b=2''"
    by (simp add: nextjs_def)
  have s: "Headers_set ''cookie'' ''theme=dark; a=1; b=2'' (cookie_heap ! 0)
             = [(''cookie'', ''theme=dark; a=1; b=2''), (''host'', ''example.com'')]"
    by (simp add: demo_defs)
  have m: "merge_routing
             (next_headers nextjs (Some [(''cookie'', ''theme=dark; a=1; b=2''), (''host'', ''example.com'')]))
             (cookie_heap ! 1)
           = [(''x-middleware-next'', ''1''), (''set-cookie'', ''a=1; Path=/''),
              (''set-cookie'', ''b=2; Path=/''),
              (''x-middleware-request-cookie'', ''theme=dark; a=1; b=2''),
              (''x-middleware-request-host'', ''example.com''),
              (''x-middleware-override-headers'', ''cookie,host'')]"
    by (simp add: merge_routing_def routing_header_def startsWith_def demo_defs)
  note t = propagator_copies_cookies_sets_routing_only [OF a, of nextjs 0, unfolded Let_def b c d e j s]
  have t5: "applyCookiesOnNextResponse nextjs 0 1 cookie_heap ! 2
       = [(''cookie'', ''theme=dark; a=1; b=2''), (''host'', ''example.com'')]"
    using t by simp
  have t6: "applyCookiesOnNextResponse nextjs 0 1 cookie_heap ! 1
       = merge_routing
           (next_headers nextjs (Some [(''cookie'', ''theme=dark; a=1; b=2''), (''host'', ''example.com'')]))
           (cookie_heap ! 1)"
    using t t5 by simp
  have t2: "Headers_get (applyCookiesOnNextResponse nextjs 0 1 cookie_heap ! 2) ''cookie''
       = Some ''theme=dark; a=1; b=2''"
    using t by (simp add: Headers_get_def)
  have t4: "filter (\<lambda>(k, _). \<not> routing_header k) (applyCookiesOnNextResponse nextjs 0 1 cookie_heap ! 1)
       = cookie_heap ! 1"
    using t by blast
  have t7: "length (applyCookiesOnNextResponse nextjs 0 1 cookie_heap) = 4"
    using t by simp
  have t8: "applyCookiesOnNextResponse nextjs 0 1 cookie_heap ! 0 = cookie_heap ! 0"
    using t by simp
  from a b t2 t4 t5 t6 t6 [unfolded m] t7 t8 show ?thesis by blast
qed

text \<open>
  Claim C8, as the code has it. The propagator has no test for an empty jar. When the
  response carries no cookie, the derived copy equals the request's headers, and the
  response still receives the routing headers that \<^verbatim>\<open>NextResponse.next\<close> makes of them;
  its headers under every other name are unchanged.
\<close>

theorem propagator_without_cookies:
  assumes "res < length h"
      and "getAll (ResponseCookies_new fw (h ! res)) = []"
  shows "applyCookiesOnNextResponse fw req res h ! length h = h ! req
       \<and> applyCookiesOnNextResponse fw req res h ! res
           = merge_routing (next_headers fw (Some (h ! req))) (h ! res)
       \<and> filter (\<lambda>(k, _). \<not> routing_header k) (applyCookiesOnNextResponse fw req res h ! res)
           = filter (\<lambda>(k, _). \<not> routing_header k) (h ! res)"
  using assms
  by (simp add: applyCookies_valid nth_append derived_copy_def filter_merge_routing)

text \<open>The theorem of C8 on a response just made.\<close>

theorem propagator_without_cookies_witness:
  "1 < length fresh_heap
   \<and> getAll (ResponseCookies_new nextjs (fresh_heap ! 1)) = []
   \<and> applyCookiesOnNextResponse nextjs 0 1 fresh_heap ! 2 = fresh_heap ! 0
   \<and> applyCookiesOnNextResponse nextjs 0 1 fresh_heap ! 1
       = merge_routing (next_headers nextjs (Some (fresh_heap ! 0))) (fresh_heap ! 1)
   \<and> filter (\<lambda>(k, _). \<not> routing_header k) (applyCookiesOnNextResponse nextjs 0 1 fresh_heap ! 1)
       = fresh_heap ! 1"
proof -
  have a: "1 < length fresh_heap" by (simp add: demo_defs)
  have b: "getAll (ResponseCookies_new nextjs (fresh_heap ! 1)) = []"
    by (simp add: model_defs demo_defs)
  have d: "length fresh_heap = 2" by (simp add: demo_defs)
  have e: "filter (\<lambda>(k, _). \<not> routing_header k) (fresh_heap ! 1) = fresh_heap ! 1"
    by (simp add: routing_header_def startsWith_def demo_defs)
  show ?thesis
    using propagator_without_cookies [OF a b, of 0] a b unfolding d e by blast
qed

text \<open>
  Claim C8 as stated (the response's headers are unchanged when it carries no cookie)
  fails: the response gains the override marker and one rewrite header per request header.
\<close>

theorem propagator_without_cookies_changes_response:
  "getAll (ResponseCookies_new nextjs (fresh_heap ! 1)) = []
   \<and> applyCookiesOnNextResponse nextjs 0 1 fresh_heap ! 1 \<noteq> fresh_heap ! 1
   \<and> applyCookiesOnNextResponse nextjs 0 1 fresh_heap ! 1
       = [(''x-middleware-next'', ''1''),
          (''x-middleware-request-cookie'', ''theme=dark''),
          (''x-middleware-request-host'', ''example.com''),
          (''x-middleware-override-headers'', ''cookie,host'')]"
  by (simp add: model_defs demo_defs)

text \<open>
  Claim C9. The program does not write to the request. The propagator leaves the
  request's headers as they were for every response other than the request itself; and
  when every callback keeps the request, so does the composed handler: the request
  after the call equals the request before it.
\<close>

theorem request_not_mutated:
  assumes "req < length h"
  shows "(res \<noteq> req \<longrightarrow> applyCookiesOnNextResponse fw req res h ! req = h ! req)
       \<and> (keeps req (shouldRefresh opts req) \<and> keeps req (fetchTokenPair opts req)
            \<and> (\<forall>tp. keeps req (onSuccess opts (fst (NextResponse_next fw None h)) tp))
            \<and> (\<forall>f e. onError opts = Some f \<longrightarrow> keeps req (f req (fst (NextResponse_next fw None h)) e))
            \<and> (\<forall>f. middlewareFn = Some f \<longrightarrow> keeps req (f req (fst (NextResponse_next fw None h)) event))
          \<longrightarrow> heap_of (snd (getMiddleware fw opts middlewareFn req event h)) ! req = h ! req)"
proof -
  have n: "fst (NextResponse_next fw None h) = length h"
    by (simp add: NextResponse_next_def Headers_new_def)
  show ?thesis
    using assms applyCookies_req(1) [of req h res fw]
      getMiddleware_frame [of req h opts middlewareFn event fw]
    by (simp add: n frame_def)
qed

text \<open>The theorem of C9 on the propagator alone and on a full refresh.\<close>

theorem request_not_mutated_witness:
  "0 < length cookie_heap \<and> (1::nat) \<noteq> 0
   \<and> applyCookiesOnNextResponse nextjs 0 1 cookie_heap ! 0 = cookie_heap ! 0
   \<and> 0 < length demo_heap
   \<and> keeps 0 (shouldRefresh full_opts 0) \<and> keeps 0 (fetchTokenPair full_opts 0)
   \<and> (\<forall>tp. keeps 0 (onSuccess full_opts 1 tp))
   \<and> (\<forall>e. keeps 0 (login_redirect 0 1 e))
   \<and> keeps 0 (passing_handler 0 1 ())
   \<and> heap_of (snd (getMiddleware nextjs full_opts (Some passing_handler) 0 () demo_heap)) ! 0
       = demo_heap ! 0"
proof -
  have a: "0 < length cookie_heap" and b: "0 < length demo_heap"
    by (simp_all add: demo_defs)
  have n: "fst (NextResponse_next nextjs None demo_heap) = 1"
    by (simp add: model_defs demo_defs)
  have k: "keeps 0 (shouldRefresh full_opts 0)" "keeps 0 (fetchTokenPair full_opts 0)"
    "\<forall>tp. keeps 0 (onSuccess full_opts 1 tp)" "\<forall>e. keeps 0 (login_redirect 0 1 e)"
    "keeps 0 (passing_handler 0 1 ())"
    by (simp_all add: keeps_def demo_defs nth_append)
  have o: "onError full_opts = Some login_redirect" by (simp add: full_opts_def)
  show ?thesis
    using request_not_mutated [OF a, where res = 1 and fw = nextjs and opts = full_opts
                and middlewareFn = "Some passing_handler" and event = "()"]
      request_not_mutated [OF b, where res = 1 and fw = nextjs and opts = full_opts
                and middlewareFn = "Some passing_handler" and event = "()"] a b k
    unfolding n o by simp
qed

end
